theory Spec2Isabelle
  imports Main "HOL-Library.Word"
begin

unbundle bit_operations_syntax

section \<open>CoreFoundation values used by both programs\<close>

text \<open>
  Strings are byte strings. A \<open>CFDictionary\<close> with string keys is an association list;
  CoreFoundation promises no iteration order, the model iterates in list order.
  A \<open>NULL\<close> reference is \<open>None\<close>. CoreFoundation calls that need an object and are
  handed \<open>NULL\<close>, or an object of another type, do not return: the model makes that a
  value of type \<open>fault\<close>. Writing past the end of a buffer is a fault as well. Text is
  ASCII, one byte per character.
\<close>

datatype fault = NullArgument | WrongType | BufferOverrun

type_synonym 'v cfdict = "(string \<times> 'v) list"

definition CFDictionaryGetValue :: "'v cfdict \<Rightarrow> string \<Rightarrow> 'v option" where
  "CFDictionaryGetValue d k = map_of d k"

definition CFDictionaryRemoveValue :: "'v cfdict \<Rightarrow> string \<Rightarrow> 'v cfdict" where
  "CFDictionaryRemoveValue d k = filter (\<lambda>e. fst e \<noteq> k) d"

text \<open>\<open>CFDictionaryAddValue\<close> stores the pair only if the key is not yet present.\<close>

definition CFDictionaryAddValue :: "'v cfdict \<Rightarrow> string \<Rightarrow> 'v \<Rightarrow> 'v cfdict" where
  "CFDictionaryAddValue d k v = (if map_of d k = None then d @ [(k, v)] else d)"

text \<open>
  \<open>CFStringCreateArrayBySeparatingStrings\<close> for a one-character separator. The result
  always has at least one component, so the first case of the inner \<open>case\<close> never
  applies.
\<close>

fun separate :: "char \<Rightarrow> string \<Rightarrow> string list" where
  "separate c [] = [[]]"
| "separate c (x # xs) =
     (if x = c then [] # separate c xs
      else (case separate c xs of
              [] \<Rightarrow> [[x]]
            | y # ys \<Rightarrow> (x # y) # ys))"

definition CFStringHasPrefix :: "string \<Rightarrow> string \<Rightarrow> bool" where
  "CFStringHasPrefix s p = (take (length p) s = p)"

text \<open>Decimal text of a number, as \<open>%d\<close> and the \<open>%@\<close> of a \<open>CFNumber\<close> print it.\<close>

fun show_nat :: "nat \<Rightarrow> string" where
  "show_nat n =
     (if n < 10 then [''0123456789'' ! n]
      else show_nat (n div 10) @ [''0123456789'' ! (n mod 10)])"

declare show_nat.simps [simp del]

definition show_int :: "int \<Rightarrow> string" where
  "show_int i = (if i < 0 then CHR ''-'' # show_nat (nat (- i)) else show_nat (nat i))"

section \<open>Route mutator (staticrouted.c, do_route, lines 409-503)\<close>

text \<open>
  The external command is \<open>/sbin/route\<close>. What the child does is the environment's
  business: a \<open>kernel\<close> maps the invocations made so far, with their results, and the
  next argument vector to what \<open>posix_spawn\<close> returned and to the value the variable
  \<open>status\<close> holds after \<open>waitpid\<close> (it is initialised to 0).
  \<open>WIFSIGNALED\<close> and \<open>WEXITSTATUS\<close> are the macros of \<open>sys/wait.h\<close>.
  The array \<open>argv\<close> of the source has the four entries listed in \<open>route_argv\<close> and no
  terminating \<open>NULL\<close>; what \<open>posix_spawn\<close> reads behind them is not known to the model
  and is part of what the \<open>kernel\<close> stands for.
\<close>

record proc_result =
  spawn_rc :: int
  wait_status :: int

type_synonym argv = "string list"
type_synonym route_log = "(argv \<times> proc_result) list"
type_synonym kernel = "route_log \<Rightarrow> argv \<Rightarrow> proc_result"

definition WSTATUS :: "int \<Rightarrow> int" where
  "WSTATUS x = x AND 0x7f"

definition WIFSIGNALED :: "int \<Rightarrow> bool" where
  "WIFSIGNALED x = (WSTATUS x \<noteq> 0x7f \<and> WSTATUS x \<noteq> 0)"

definition WEXITSTATUS :: "int \<Rightarrow> int" where
  "WEXITSTATUS x = drop_bit 8 x AND 0xff"

text \<open>The decision taken on the child's result, in the order of the source.\<close>

definition do_route_result :: "proc_result \<Rightarrow> bool" where
  "do_route_result r =
     (if spawn_rc r < 0 then False
      else if WIFSIGNALED (wait_status r) then False
      else if WEXITSTATUS (wait_status r) \<noteq> 0 then False
      else True)"

text \<open>
  A prefix length is a \<open>CFNumber\<close> made from an \<open>int\<close> (\<open>kCFNumberIntType\<close>): a 32-bit
  word, read as a signed number where it is printed.

  \<open>routerBuf\<close> and \<open>destBuf\<close> hold 256 bytes each. \<open>CFStringGetBytes\<close> fills at most 256
  bytes and reports their number in \<open>usedBuf\<close>. The source then writes the terminating
  zero at \<open>routerBuf[usedBuf]\<close>, which is past the end for a router of 256 bytes or more,
  and prints the slash, the prefix length and a terminating zero at \<open>destBuf + usedBuf\<close>,
  which runs past the end when the address and the digits together exceed 254 bytes.
\<close>

definition route_argv :: "string \<Rightarrow> string \<Rightarrow> 32 word \<Rightarrow> string \<Rightarrow> argv" where
  "route_argv cmd address prefixLen router =
     [''/sbin/route'', cmd, address @ ''/'' @ show_int (sint prefixLen), router]"

definition do_route ::
  "kernel \<Rightarrow> string \<Rightarrow> string \<Rightarrow> 32 word \<Rightarrow> string \<Rightarrow> route_log
     \<Rightarrow> fault + bool \<times> route_log" where
  "do_route K cmd address prefixLen router lg =
     (if 256 \<le> length router then Inl BufferOverrun
      else if 254 < length address + length (show_int (sint prefixLen)) then Inl BufferOverrun
      else (let a = route_argv cmd address prefixLen router;
                r = K lg a
            in Inr (do_route_result r, lg @ [(a, r)])))"

definition remove_route ::
  "kernel \<Rightarrow> string \<Rightarrow> 32 word \<Rightarrow> string \<Rightarrow> route_log \<Rightarrow> fault + bool \<times> route_log" where
  "remove_route K address prefixLen router lg = do_route K ''delete'' address prefixLen router lg"

definition add_route ::
  "kernel \<Rightarrow> string \<Rightarrow> 32 word \<Rightarrow> string \<Rightarrow> route_log \<Rightarrow> fault + bool \<times> route_log" where
  "add_route K address prefixLen router lg = do_route K ''add'' address prefixLen router lg"

section \<open>Reconciler (staticrouted.c, setup_routes_for_service, lines 159-407)\<close>

text \<open>
  A desired route is the dictionary that \<open>staticroute add\<close> stores: it always has the
  three fields. An entry of the active snapshot is a dictionary read back from the
  dynamic store; any of its fields may be missing.
\<close>

record route =
  addressFamily :: string
  address :: string
  prefixLength :: "32 word"

record routeInfo =
  ri_addressFamily :: "string option"
  ri_address :: "string option"
  ri_prefixLength :: "32 word option"
  ri_router :: "string option"

record service_state =
  Router :: "string option"
  NetworkSignature :: "string option"

text \<open>
  The two dictionaries of one pass and the invocations of \<open>/sbin/route\<close>:
  \<open>activeStaticRoutes\<close> is what will be stored back, \<open>inactiveStaticRoutes\<close> holds
  the entries still to be removed.
\<close>

record pass =
  activeStaticRoutes :: "routeInfo cfdict"
  inactiveStaticRoutes :: "routeInfo cfdict"
  log :: route_log

text \<open>\<open>remove_routes\<close> (lines 164-185), applied to every entry of \<open>inactiveStaticRoutes\<close>.\<close>

definition remove_routes :: "kernel \<Rightarrow> string \<Rightarrow> routeInfo \<Rightarrow> pass \<Rightarrow> fault + pass" where
  "remove_routes K key val ctx =
     (case (ri_address val, ri_prefixLength val, ri_router val) of
        (Some a, Some p, Some r) \<Rightarrow>
          (case remove_route K a p r (log ctx) of
             Inl f \<Rightarrow> Inl f
           | Inr (ok, lg) \<Rightarrow>
               (let ctx' = ctx\<lparr>log := lg\<rparr>
                in if ok
                   then Inr (ctx'\<lparr>activeStaticRoutes :=
                               CFDictionaryRemoveValue (activeStaticRoutes ctx') key\<rparr>)
                   else Inr ctx'))
      | _ \<Rightarrow> Inr (ctx\<lparr>activeStaticRoutes := CFDictionaryRemoveValue (activeStaticRoutes ctx) key\<rparr>))"

text \<open>
  A loop whose body may end the process: the first fault ends it.
\<close>

fun each :: "('a \<Rightarrow> pass \<Rightarrow> fault + pass) \<Rightarrow> 'a list \<Rightarrow> pass \<Rightarrow> fault + pass" where
  "each body [] s = Inr s"
| "each body (x # xs) s =
     (case body x s of
        Inl f \<Rightarrow> Inl f
      | Inr s' \<Rightarrow> each body xs s')"

text \<open>
  Gateway resolution (lines 258-317): the \<open>Router\<close> field if the state dictionary has one, otherwise the
  first component of \<open>NetworkSignature\<close> (split at semicolons) that starts with
  \<open>IPv4.Router=\<close> (or \<open>IPv6.Router=\<close>), from its 13th character on. The source
  does not test \<open>networkSig\<close> before handing it to
  \<open>CFStringCreateArrayBySeparatingStrings\<close>.
\<close>

fun router_of_components :: "string \<Rightarrow> string list \<Rightarrow> string option" where
  "router_of_components pfx [] = None"
| "router_of_components pfx (component # rest) =
     (if CFStringHasPrefix component pfx then Some (drop 12 component)
      else router_of_components pfx rest)"

definition resolve_router :: "string \<Rightarrow> service_state option \<Rightarrow> fault + string option" where
  "resolve_router pfx serviceState =
     (case serviceState of
        None \<Rightarrow> Inr None
      | Some st \<Rightarrow>
          (case Router st of
             Some r \<Rightarrow> Inr (Some r)
           | None \<Rightarrow>
               (case NetworkSignature st of
                  None \<Rightarrow> Inl NullArgument
                | Some networkSig \<Rightarrow>
                    Inr (router_of_components pfx (separate CHR '';'' networkSig)))))"

text \<open>The body of the loop over the desired routes (lines 319-387).\<close>

definition route_key :: "route \<Rightarrow> string" where
  "route_key rt =
     addressFamily rt @ ''/'' @ address rt @ ''/'' @ show_int (sint (prefixLength rt))"

definition route_router :: "string option \<Rightarrow> string option \<Rightarrow> route \<Rightarrow> string option" where
  "route_router ipv4Router ipv6Router rt =
     (if addressFamily rt = ''IPv4'' then ipv4Router
      else if addressFamily rt = ''IPv6'' then ipv6Router
      else None)"

definition remove_old_route :: "kernel \<Rightarrow> route \<Rightarrow> string \<Rightarrow> pass \<Rightarrow> fault + pass" where
  "remove_old_route K rt oldRouter s =
     (case remove_route K (address rt) (prefixLength rt) oldRouter (log s) of
        Inl f \<Rightarrow> Inl f
      | Inr (ok, lg) \<Rightarrow>
          (let s' = s\<lparr>log := lg\<rparr>;
               s'' = (if ok
                      then s'\<lparr>activeStaticRoutes :=
                             CFDictionaryRemoveValue (activeStaticRoutes s') (route_key rt)\<rparr>
                      else s')
           in Inr (s''\<lparr>inactiveStaticRoutes :=
                        CFDictionaryRemoveValue (inactiveStaticRoutes s'') (route_key rt)\<rparr>)))"

definition add_new_route :: "kernel \<Rightarrow> route \<Rightarrow> string \<Rightarrow> pass \<Rightarrow> fault + pass" where
  "add_new_route K rt router s =
     (case add_route K (address rt) (prefixLength rt) router (log s) of
        Inl f \<Rightarrow> Inl f
      | Inr (ok, lg) \<Rightarrow>
          (let s' = s\<lparr>log := lg\<rparr>
           in if ok
              then Inr (s'\<lparr>activeStaticRoutes :=
                          CFDictionaryAddValue (activeStaticRoutes s') (route_key rt)
                            \<lparr>ri_addressFamily = Some (addressFamily rt),
                             ri_address = Some (address rt),
                             ri_prefixLength = Some (prefixLength rt),
                             ri_router = Some router\<rparr>,
                        inactiveStaticRoutes :=
                          CFDictionaryRemoveValue (inactiveStaticRoutes s') (route_key rt)\<rparr>)
              else Inr s'))"

definition old_router :: "pass \<Rightarrow> string \<Rightarrow> string option" where
  "old_router s key =
     (case CFDictionaryGetValue (activeStaticRoutes s) key of
        None \<Rightarrow> None
      | Some oldRouteInfo \<Rightarrow> ri_router oldRouteInfo)"

definition setup_route ::
  "kernel \<Rightarrow> string option \<Rightarrow> string option \<Rightarrow> route \<Rightarrow> pass \<Rightarrow> fault + pass" where
  "setup_route K ipv4Router ipv6Router rt s =
     (case route_router ipv4Router ipv6Router rt of
        None \<Rightarrow> Inr s
      | Some router \<Rightarrow>
          (case old_router s (route_key rt) of
             None \<Rightarrow> add_new_route K rt router s
           | Some oldRouter \<Rightarrow>
               if router = oldRouter
               then Inr (s\<lparr>inactiveStaticRoutes :=
                             CFDictionaryRemoveValue (inactiveStaticRoutes s) (route_key rt)\<rparr>)
               else (case remove_old_route K rt oldRouter s of
                       Inl f \<Rightarrow> Inl f
                     | Inr s' \<Rightarrow> add_new_route K rt router s')))"

text \<open>
  The state both programs share. \<open>staticRoutes\<close> is the value of the preferences under
  \<open>kRoutesKey\<close> (a dictionary from service identifiers to arrays of routes, or
  \<open>NULL\<close>); \<open>activeStore\<close> is the dynamic store under
  \<open>State:/com.coriolis-systems.StaticRoutes/Service/<id>\<close>; the service states are the
  dynamic store under \<open>State:/Network/Service/<id>/IPv4\<close> and \<open>.../IPv6\<close>.
  \<open>prefsTrace\<close> records the calls made on the preferences session.
\<close>

datatype prefs_event =
    PrefsSynchronize | PrefsLock | PrefsUnlock
  | PrefsGetValue string | PrefsSetValue string
  | PrefsCommitChanges | PrefsApplyChanges

definition kRoutesKey :: string where
  "kRoutesKey = ''com.coriolis-systems.StaticRoutes''"

record world =
  staticRoutes :: "route list cfdict option"
  activeStore :: "string \<Rightarrow> routeInfo cfdict option"
  serviceStateIPv4 :: "string \<Rightarrow> service_state option"
  serviceStateIPv6 :: "string \<Rightarrow> service_state option"
  routeLog :: route_log
  prefsTrace :: "prefs_event list"

definition prefs_event :: "prefs_event list \<Rightarrow> world \<Rightarrow> world" where
  "prefs_event es w = w\<lparr>prefsTrace := prefsTrace w @ es\<rparr>"

definition run_pass ::
  "kernel \<Rightarrow> string option \<Rightarrow> string option \<Rightarrow> route list \<Rightarrow> routeInfo cfdict \<Rightarrow> route_log
     \<Rightarrow> fault + pass" where
  "run_pass K ipv4Router ipv6Router routes active0 lg =
     (case each (setup_route K ipv4Router ipv6Router) routes
             \<lparr>activeStaticRoutes = active0, inactiveStaticRoutes = active0, log = lg\<rparr> of
        Inl f \<Rightarrow> Inl f
      | Inr s1 \<Rightarrow> each (\<lambda>(key, val). remove_routes K key val) (inactiveStaticRoutes s1) s1)"

definition setup_routes_for_service :: "kernel \<Rightarrow> string \<Rightarrow> world \<Rightarrow> fault + world" where
  "setup_routes_for_service K serviceID w =
     (let w1 = prefs_event [PrefsSynchronize, PrefsLock, PrefsGetValue kRoutesKey] w in
      case staticRoutes w1 of
        None \<Rightarrow> Inr (prefs_event [PrefsUnlock] w1)
      | Some d \<Rightarrow>
          (case CFDictionaryGetValue d serviceID of
             None \<Rightarrow> Inr (prefs_event [PrefsUnlock] w1)
           | Some routes \<Rightarrow>
               (let active0 = (case activeStore w1 serviceID of Some a \<Rightarrow> a | None \<Rightarrow> []) in
                case resolve_router ''IPv4.Router='' (serviceStateIPv4 w1 serviceID) of
                  Inl f \<Rightarrow> Inl f
                | Inr ipv4Router \<Rightarrow>
                    (case resolve_router ''IPv6.Router='' (serviceStateIPv6 w1 serviceID) of
                       Inl f \<Rightarrow> Inl f
                     | Inr ipv6Router \<Rightarrow>
                         (case run_pass K ipv4Router ipv6Router routes active0 (routeLog w1) of
                            Inl f \<Rightarrow> Inl f
                          | Inr s \<Rightarrow>
                              Inr (prefs_event [PrefsUnlock]
                                (w1\<lparr>activeStore :=
                                      (activeStore w1)(serviceID := Some (activeStaticRoutes s)),
                                    routeLog := log s\<rparr>)))))))"

section \<open>Change aggregator (staticrouted.c, dynamic_store_changed, lines 120-157)\<close>







section \<open>Destination parser (staticroute.c, parse_dest, lines 100-185)\<close>

text \<open>
  The C library functions the parser calls. \<open>sscanf\<close> with \<open>%d\<close>, as in the BSD C
  library: it skips white space, collects an optional sign and decimal digits, at most
  512 characters in all, and fails unless there is a digit. The collected text is
  converted by \<open>strtoimax\<close>, which stops at the largest or smallest 64-bit number, and
  the result is stored in the \<open>int\<close>, which keeps its low 32 bits. \<open>sscanf_d\<close> is \<open>None\<close>
  when \<open>sscanf\<close> does not return 1.
\<close>

definition isspace :: "char \<Rightarrow> bool" where
  "isspace c = (c \<in> set [CHR '' '', CHR 0x09, CHR 0x0A, CHR 0x0B, CHR 0x0C, CHR 0x0D])"

definition isdigit :: "char \<Rightarrow> bool" where
  "isdigit c = (c \<in> set ''0123456789'')"

definition digit_val :: "char \<Rightarrow> nat" where
  "digit_val c = of_char c - 48"

fun decimal :: "nat \<Rightarrow> string \<Rightarrow> nat" where
  "decimal acc [] = acc"
| "decimal acc (c # cs) = decimal (10 * acc + digit_val c) cs"

definition strtoimax :: "bool \<Rightarrow> string \<Rightarrow> int" where
  "strtoimax negative digits =
     (let v = (if negative then - int (decimal 0 digits) else int (decimal 0 digits))
      in max (- (2 ^ 63)) (min (2 ^ 63 - 1) v))"

definition sscanf_d :: "string \<Rightarrow> int option" where
  "sscanf_d s =
     (let s1 = dropWhile isspace s;
          signed = (s1 \<noteq> [] \<and> (hd s1 = CHR ''-'' \<or> hd s1 = CHR ''+''));
          negative = (s1 \<noteq> [] \<and> hd s1 = CHR ''-'');
          digits = takeWhile isdigit (if signed then take 511 (tl s1) else take 512 s1)
      in if digits = [] then None
         else Some (sint (word_of_int (strtoimax negative digits) :: 32 word)))"

text \<open>
  \<open>inet_pton\<close> for \<open>AF_INET\<close>, as in the BSD C library: four decimal numbers up to 255
  separated by dots, no leading zero. \<open>tmp\<close> holds the bytes written so far, the last
  one being the one under construction.
\<close>

fun inet_pton4_loop :: "string \<Rightarrow> bool \<Rightarrow> nat \<Rightarrow> nat list \<Rightarrow> nat list option" where
  "inet_pton4_loop [] saw_digit octets tmp = (if octets < 4 then None else Some tmp)"
| "inet_pton4_loop (ch # src) saw_digit octets tmp =
     (if isdigit ch then
        (if saw_digit \<and> last tmp = 0 then None
         else if last tmp * 10 + digit_val ch > 255 then None
         else if \<not> saw_digit then
           (if octets + 1 > 4 then None
            else inet_pton4_loop src True (octets + 1)
                   (butlast tmp @ [last tmp * 10 + digit_val ch]))
         else inet_pton4_loop src True octets (butlast tmp @ [last tmp * 10 + digit_val ch]))
      else if ch = CHR ''.'' \<and> saw_digit then
        (if octets = 4 then None else inet_pton4_loop src False octets (tmp @ [0]))
      else None)"

definition inet_pton4 :: "string \<Rightarrow> 8 word list option" where
  "inet_pton4 src = map_option (map of_nat) (inet_pton4_loop src False 0 [0])"

text \<open>
  \<open>inet_pton\<close> for \<open>AF_INET6\<close>, as in the BSD C library: groups of up to four
  hexadecimal digits separated by colons, one \<open>::\<close> that stands for the missing zero
  groups, and an optional dotted IPv4 address at the end.
\<close>

definition xdigit_val :: "char \<Rightarrow> nat option" where
  "xdigit_val c =
     (if c \<in> set ''0123456789'' then Some (of_char c - 48)
      else if c \<in> set ''abcdef'' then Some (of_char c - 87)
      else if c \<in> set ''ABCDEF'' then Some (of_char c - 55)
      else None)"

fun inet_pton6_loop ::
  "string \<Rightarrow> string \<Rightarrow> nat \<Rightarrow> nat \<Rightarrow> 8 word list \<Rightarrow> nat option
     \<Rightarrow> (nat \<times> nat \<times> 8 word list \<times> nat option) option" where
  "inet_pton6_loop [] curtok seen_xdigits val out colonp = Some (seen_xdigits, val, out, colonp)"
| "inet_pton6_loop (ch # src) curtok seen_xdigits val out colonp =
     (case xdigit_val ch of
        Some d \<Rightarrow>
          (if seen_xdigits + 1 > 4 then None
           else inet_pton6_loop src curtok (seen_xdigits + 1) (val * 16 + d) out colonp)
      | None \<Rightarrow>
          if ch = CHR '':'' then
            (if seen_xdigits = 0 then
               (if colonp \<noteq> None then None
                else inet_pton6_loop src src 0 val out (Some (length out)))
             else if src = [] then None
             else if length out + 2 > 16 then None
             else inet_pton6_loop src src 0 0
                    (out @ [of_nat (val div 256), of_nat (val mod 256)]) colonp)
          else if ch = CHR ''.'' \<and> length out + 4 \<le> 16 then
            (case inet_pton4 curtok of
               Some v4 \<Rightarrow> Some (0, val, out @ v4, colonp)
             | None \<Rightarrow> None)
          else None)"

definition inet_pton6 :: "string \<Rightarrow> 8 word list option" where
  "inet_pton6 src0 =
     (if src0 \<noteq> [] \<and> hd src0 = CHR '':'' \<and> (tl src0 = [] \<or> hd (tl src0) \<noteq> CHR '':'') then None
      else
        (let src = (if src0 \<noteq> [] \<and> hd src0 = CHR '':'' then tl src0 else src0) in
         case inet_pton6_loop src src 0 0 [] None of
           None \<Rightarrow> None
         | Some (seen_xdigits, val, out, colonp) \<Rightarrow>
             if seen_xdigits \<noteq> 0 \<and> length out + 2 > 16 then None
             else
               (let out1 = (if seen_xdigits \<noteq> 0
                            then out @ [of_nat (val div 256), of_nat (val mod 256)] else out)
                in case colonp of
                     None \<Rightarrow> if length out1 \<noteq> 16 then None else Some out1
                   | Some c \<Rightarrow>
                       if length out1 = 16 then None
                       else Some (take c out1 @ replicate (16 - length out1) 0 @ drop c out1))))"

text \<open>
  The address in \<open>struct destination\<close>. The bytes that \<open>inet_pton\<close> wrote are kept as
  the numbers their groups of four denote when read big-endian (network order): one
  number for IPv4, four for IPv6. The host reads \<open>s_addr\<close> and \<open>words[i]\<close> in its own
  byte order; \<open>big_endian\<close> tells which one that is. \<open>AF_INET\<close> and \<open>AF_INET6\<close> are the
  constants of \<open>sys/socket.h\<close>.
\<close>

definition AF_INET :: int where "AF_INET = 2"
definition AF_INET6 :: int where "AF_INET6 = 30"

record destination =
  af :: int
  prefix_len :: int
  ip :: "32 word list"

definition be32 :: "8 word list \<Rightarrow> 32 word" where
  "be32 bs = foldl (\<lambda>acc b. push_bit 8 acc OR ucast b) 0 bs"

definition OSSwapInt32 :: "32 word \<Rightarrow> 32 word" where
  "OSSwapInt32 x =
     push_bit 24 (x AND 0xff) OR push_bit 8 (x AND 0xff00)
       OR drop_bit 8 (x AND 0xff0000) OR drop_bit 24 (x AND 0xff000000)"

definition OSSwapHostToBigInt32 :: "bool \<Rightarrow> 32 word \<Rightarrow> 32 word" where
  "OSSwapHostToBigInt32 big_endian x = (if big_endian then x else OSSwapInt32 x)"

text \<open>
  \<open>host_word\<close>: what the host reads from memory whose big-endian reading is \<open>x\<close>;
  \<open>memory_word\<close>: the big-endian reading of memory into which the host stored \<open>x\<close>.
  \<open>and_mask\<close> is the statement \<open>w &= OSSwapHostToBigInt32 (mask)\<close> on a word in memory.
\<close>

definition host_word :: "bool \<Rightarrow> 32 word \<Rightarrow> 32 word" where
  "host_word big_endian x = (if big_endian then x else OSSwapInt32 x)"

definition memory_word :: "bool \<Rightarrow> 32 word \<Rightarrow> 32 word" where
  "memory_word big_endian x = (if big_endian then x else OSSwapInt32 x)"

definition and_mask :: "bool \<Rightarrow> 32 word \<Rightarrow> 32 word \<Rightarrow> 32 word" where
  "and_mask big_endian w m =
     memory_word big_endian (host_word big_endian w AND OSSwapHostToBigInt32 big_endian m)"

definition shifted_mask :: "int \<Rightarrow> 32 word" where
  "shifted_mask n = push_bit (nat n) (0xffffffff :: 32 word)"

definition mask_v4 :: "bool \<Rightarrow> int \<Rightarrow> 32 word \<Rightarrow> destination" where
  "mask_v4 big_endian prefix v4 =
     (if prefix \<le> 0
      then \<lparr>af = AF_INET, prefix_len = 0, ip = [and_mask big_endian v4 0]\<rparr>
      else (let p = (if prefix > 32 then 32 else prefix)
            in \<lparr>af = AF_INET, prefix_len = p,
                ip = [and_mask big_endian v4 (shifted_mask (32 - p))]\<rparr>))"

definition mask_v6 :: "bool \<Rightarrow> int \<Rightarrow> 32 word list \<Rightarrow> destination" where
  "mask_v6 big_endian prefix words =
     (let p = (if prefix < 0 then 0 else if prefix > 128 then 128 else prefix)
      in \<lparr>af = AF_INET6, prefix_len = p,
          ip = (if p = 0 then [0, 0, 0, 0]
                else if p \<le> 32 then
                  [and_mask big_endian (words ! 0) (shifted_mask (32 - p)), 0, 0, 0]
                else if p \<le> 64 then
                  [words ! 0, and_mask big_endian (words ! 1) (shifted_mask (64 - p)), 0, 0]
                else if p \<le> 96 then
                  [words ! 0, words ! 1,
                   and_mask big_endian (words ! 2) (shifted_mask (96 - p)), 0]
                else
                  [words ! 0, words ! 1, words ! 2,
                   and_mask big_endian (words ! 3) (shifted_mask (128 - p))])\<rparr>)"

definition v6_words :: "8 word list \<Rightarrow> 32 word list" where
  "v6_words bs =
     [be32 (take 4 bs), be32 (take 4 (drop 4 bs)), be32 (take 4 (drop 8 bs)),
      be32 (take 4 (drop 12 bs))]"

definition parse_dest :: "bool \<Rightarrow> string \<Rightarrow> destination option" where
  "parse_dest big_endian str0 =
     (let ptr = (CHR ''/'' \<in> set str0);
          scanned = (if ptr then sscanf_d (tl (dropWhile (\<lambda>c. c \<noteq> CHR ''/'') str0)) else None);
          str = (if ptr then takeWhile (\<lambda>c. c \<noteq> CHR ''/'') str0 else str0)
      in case inet_pton4 str of
           Some v4 \<Rightarrow>
             Some (mask_v4 big_endian (case scanned of None \<Rightarrow> 32 | Some n \<Rightarrow> n) (be32 v4))
         | None \<Rightarrow>
             (case inet_pton6 str of
                Some v6 \<Rightarrow>
                  Some (mask_v6 big_endian (case scanned of None \<Rightarrow> 128 | Some n \<Rightarrow> n)
                          (v6_words v6))
              | None \<Rightarrow> None))"

section \<open>Access to the preferences in the command-line tool (staticroute.c)\<close>

text \<open>
  \<open>sc_get_value_at_path\<close> (lines 38-66), \<open>service_by_name\<close> (lines 270-308) and
  \<open>list_routes\<close> (lines 419-464).
\<close>

text \<open>
  The preferences are a property list: a dictionary from keys to strings, numbers,
  dictionaries and arrays. Every function returns its result (or the fault that ends the
  process) together with the calls it made on the preferences session, in order. What the
  tool prints is not part of the model.
\<close>

datatype plist =
    PString string
  | PNumber int
  | PDict "(string \<times> plist) list"
  | PArray "plist list"

type_synonym 'a traced = "(fault + 'a) \<times> prefs_event list"

definition result :: "'a \<Rightarrow> 'a traced" where
  "result x = (Inr x, [])"

definition call :: "prefs_event \<Rightarrow> 'a \<Rightarrow> 'a traced" where
  "call e x = (Inr x, [e])"

definition untraced :: "fault + 'a \<Rightarrow> 'a traced" where
  "untraced r = (r, [])"

definition and_then :: "'a traced \<Rightarrow> ('a \<Rightarrow> 'b traced) \<Rightarrow> 'b traced" where
  "and_then m f =
     (case m of
        (Inl e, es) \<Rightarrow> (Inl e, es)
      | (Inr x, es) \<Rightarrow> (case f x of (r, es') \<Rightarrow> (r, es @ es')))"

definition SCPreferencesGetValue :: "plist cfdict \<Rightarrow> string \<Rightarrow> plist option traced" where
  "SCPreferencesGetValue scprefs key = call (PrefsGetValue key) (map_of scprefs key)"

text \<open>\<open>CFDictionaryGetValue\<close> on a value read from the preferences.\<close>

definition dictionary_value :: "plist option \<Rightarrow> string \<Rightarrow> fault + plist option" where
  "dictionary_value obj key =
     (case obj of
        None \<Rightarrow> Inl NullArgument
      | Some (PDict d) \<Rightarrow> Inr (map_of d key)
      | Some _ \<Rightarrow> Inl WrongType)"

definition string_value :: "plist option \<Rightarrow> fault + string" where
  "string_value obj =
     (case obj of
        None \<Rightarrow> Inl NullArgument
      | Some (PString s) \<Rightarrow> Inr s
      | Some _ \<Rightarrow> Inl WrongType)"

definition array_value :: "plist option \<Rightarrow> fault + plist list" where
  "array_value obj =
     (case obj of
        None \<Rightarrow> Inl NullArgument
      | Some (PArray xs) \<Rightarrow> Inr xs
      | Some _ \<Rightarrow> Inl WrongType)"

fun descend :: "plist option \<Rightarrow> string list \<Rightarrow> fault + plist option" where
  "descend obj [] = Inr obj"
| "descend None (key # keys) = Inr None"
| "descend (Some obj) (key # keys) =
     (case dictionary_value (Some obj) key of
        Inl f \<Rightarrow> Inl f
      | Inr obj' \<Rightarrow> descend obj' keys)"

definition sc_get_value_at_path :: "plist cfdict \<Rightarrow> plist option \<Rightarrow> plist option traced" where
  "sc_get_value_at_path scprefs path =
     and_then (untraced (string_value path)) (\<lambda>p.
       let splitPath = separate CHR ''/'' p
       in if length splitPath < 2 then result None
          else and_then (SCPreferencesGetValue scprefs (splitPath ! 1)) (\<lambda>obj.
                 untraced (descend obj (drop 2 splitPath))))"

definition to_lower :: "char \<Rightarrow> char" where
  "to_lower c =
     (case map_of (zip ''ABCDEFGHIJKLMNOPQRSTUVWXYZ'' ''abcdefghijklmnopqrstuvwxyz'') c of
        Some l \<Rightarrow> l
      | None \<Rightarrow> c)"

text \<open>\<open>CFStringCompare\<close> with \<open>kCFCompareCaseInsensitive\<close>, on ASCII text.\<close>

definition same_name :: "string \<Rightarrow> string \<Rightarrow> bool" where
  "same_name a b = (map to_lower a = map to_lower b)"

text \<open>The loop of \<open>service_by_name\<close> over \<open>serviceOrder\<close>.\<close>

fun find_service ::
  "plist cfdict \<Rightarrow> string \<Rightarrow> plist option \<Rightarrow> plist list \<Rightarrow> (plist option \<times> string) option traced" where
  "find_service scprefs serviceName services [] = result None"
| "find_service scprefs serviceName services (sid # rest) =
     and_then (untraced (string_value (Some sid))) (\<lambda>serviceID.
     and_then (untraced (dictionary_value services serviceID)) (\<lambda>serviceInfo.
     and_then (untraced (dictionary_value serviceInfo ''__LINK__'')) (\<lambda>servicePath.
     and_then (sc_get_value_at_path scprefs servicePath) (\<lambda>service.
     and_then (untraced (dictionary_value service ''UserDefinedName'')) (\<lambda>name.
     and_then (untraced (string_value name)) (\<lambda>n.
       if same_name serviceName n then result (Some (service, serviceID))
       else find_service scprefs serviceName services rest))))))"

definition service_by_name ::
  "plist cfdict \<Rightarrow> string \<Rightarrow> (plist option \<times> string) option traced" where
  "service_by_name scprefs serviceName =
     and_then (SCPreferencesGetValue scprefs ''CurrentSet'') (\<lambda>currentSetPath.
     and_then (sc_get_value_at_path scprefs currentSetPath) (\<lambda>currentSet.
     and_then (untraced (dictionary_value currentSet ''Network'')) (\<lambda>network.
     and_then (untraced (dictionary_value network ''Global'')) (\<lambda>global.
     and_then (untraced (dictionary_value network ''Service'')) (\<lambda>services.
     and_then (untraced (dictionary_value global ''IPv4'')) (\<lambda>ipv4.
     and_then (untraced (dictionary_value ipv4 ''ServiceOrder'')) (\<lambda>serviceOrder.
     and_then (untraced (array_value serviceOrder)) (\<lambda>order.
       find_service scprefs serviceName services order))))))))"

text \<open>
  The reads \<open>list_routes\<close> makes of each route it prints.
\<close>

fun read_routes :: "plist list \<Rightarrow> fault + unit" where
  "read_routes [] = Inr ()"
| "read_routes (r # rs) =
     (case dictionary_value (Some r) ''address'' of
        Inl f \<Rightarrow> Inl f
      | Inr addr \<Rightarrow>
          (case dictionary_value (Some r) ''prefixLength'' of
             Inl f \<Rightarrow> Inl f
           | Inr prefixLen \<Rightarrow> read_routes rs))"

definition list_routes :: "plist cfdict \<Rightarrow> string \<Rightarrow> int traced" where
  "list_routes scprefs service_name =
     and_then (service_by_name scprefs service_name) (\<lambda>found.
       case found of
         None \<Rightarrow> result 1
       | Some (service, serviceID) \<Rightarrow>
           (case service of
              None \<Rightarrow> result 1
            | Some s \<Rightarrow>
                and_then (call PrefsLock ()) (\<lambda>_.
                and_then (SCPreferencesGetValue scprefs kRoutesKey) (\<lambda>staticRoutes.
                and_then (untraced (case staticRoutes of
                                      None \<Rightarrow> Inr None
                                    | Some d \<Rightarrow> dictionary_value (Some d) serviceID)) (\<lambda>routes.
                and_then (untraced (case routes of
                                      None \<Rightarrow> Inr ()
                                    | Some a \<Rightarrow>
                                        (case array_value (Some a) of
                                           Inl f \<Rightarrow> Inl f
                                         | Inr rs \<Rightarrow> read_routes rs))) (\<lambda>_.
                and_then (call PrefsUnlock ()) (\<lambda>_. result 0)))))))"

text \<open>
  The discipline of the specification: every read or write of the preferences happens
  while the lock is held, and the lock is released at the end. \<open>held\<close> tells whether
  the lock is held before the first call of the trace.
\<close>

fun locked_access :: "bool \<Rightarrow> prefs_event list \<Rightarrow> bool" where
  "locked_access held [] = (\<not> held)"
| "locked_access held (PrefsLock # es) = locked_access True es"
| "locked_access held (PrefsUnlock # es) = (held \<and> locked_access False es)"
| "locked_access held (PrefsSynchronize # es) = locked_access held es"
| "locked_access held (e # es) = (held \<and> locked_access held es)"

section \<open>Facts about the CoreFoundation values\<close>







lemma separate_no_separator: "c \<notin> set xs \<Longrightarrow> separate c xs = [xs]"
  by (induction xs) auto

lemma separate_at_separator: "c \<notin> set xs \<Longrightarrow> separate c (xs @ c # ys) = xs # separate c ys"
  by (induction xs) auto



section \<open>Route mutator\<close>

lemma do_route_result_spawned:
  "spawn_rc r = 0 \<Longrightarrow>
   do_route_result r = (\<not> WIFSIGNALED (wait_status r) \<and> WEXITSTATUS (wait_status r) = 0)"
  by (simp add: do_route_result_def)

lemma do_route_Inr:
  assumes "do_route K cmd a p r lg = Inr (ok, lg')"
  shows "lg' = lg @ [(route_argv cmd a p r, K lg (route_argv cmd a p r))]"
    and "ok = do_route_result (K lg (route_argv cmd a p r))"
  using assms by (auto simp: do_route_def Let_def split: if_splits)

text \<open>
  C6. The route mutator is meant to fail when the command cannot be spawned.
  \<open>posix_spawn\<close> reports a failure by returning an error number, which is positive;
  the source tests for a negative value. With the error number 2 (no such file) and
  \<open>status\<close> left at its initial 0, \<open>do_route\<close> reports success.
\<close>

theorem do_route_spawn_failure_reported_as_success:
  "do_route (\<lambda>lg a. \<lparr>spawn_rc = 2, wait_status = 0\<rparr>)
         ''add'' ''10.0.0.0'' 24 ''192.168.1.1'' [] =
     Inr (True,
          [([''/sbin/route'', ''add'', ''10.0.0.0/24'', ''192.168.1.1''],
            \<lparr>spawn_rc = 2, wait_status = 0\<rparr>)])"
  by (simp add: do_route_def route_argv_def show_int_def show_nat.simps do_route_result_def
      WIFSIGNALED_def WEXITSTATUS_def WSTATUS_def)

section \<open>Orphan cleanup\<close>

text \<open>
  What \<open>remove_routes\<close> does with an entry of the candidate set: an entry without an
  address, a prefix length or a router is deleted from the active snapshot and no
  command is run; for an entry with all three, one \<open>delete\<close> command is run, and the
  entry is deleted from the active snapshot exactly when \<open>do_route\<close> reported success.
\<close>

lemma remove_routes_cases:
  "(ri_address val = None \<or> ri_prefixLength val = None \<or> ri_router val = None \<longrightarrow>
      remove_routes K key val ctx =
        Inr (ctx\<lparr>activeStaticRoutes := CFDictionaryRemoveValue (activeStaticRoutes ctx) key\<rparr>))
   \<and> (ri_address val = Some a \<and> ri_prefixLength val = Some p \<and> ri_router val = Some r
        \<and> remove_routes K key val ctx = Inr ctx' \<longrightarrow>
      log ctx' =
        log ctx @ [(route_argv ''delete'' a p r, K (log ctx) (route_argv ''delete'' a p r))]
      \<and> activeStaticRoutes ctx' =
          (if do_route_result (K (log ctx) (route_argv ''delete'' a p r))
           then CFDictionaryRemoveValue (activeStaticRoutes ctx) key
           else activeStaticRoutes ctx)
      \<and> inactiveStaticRoutes ctx' = inactiveStaticRoutes ctx)"
  by (auto simp: remove_routes_def remove_route_def do_route_def Let_def
      split: option.splits sum.splits if_splits)

text \<open>
  C9. A well-formed entry is meant to be deleted from the snapshot only if its removal
  succeeded. When the \<open>delete\<close> command cannot be spawned (error number 2, as under C6),
  \<open>do_route\<close> reports success and the entry is deleted although no command ran.
\<close>

theorem remove_routes_deletes_after_spawn_failure:
  "remove_routes (\<lambda>lg a. \<lparr>spawn_rc = 2, wait_status = 0\<rparr>) ''IPv4/10.0.0.0/24''
      \<lparr>ri_addressFamily = Some ''IPv4'', ri_address = Some ''10.0.0.0'',
       ri_prefixLength = Some 24, ri_router = Some ''192.168.1.1''\<rparr>
      \<lparr>activeStaticRoutes =
         [(''IPv4/10.0.0.0/24'',
           \<lparr>ri_addressFamily = Some ''IPv4'', ri_address = Some ''10.0.0.0'',
            ri_prefixLength = Some 24, ri_router = Some ''192.168.1.1''\<rparr>)],
       inactiveStaticRoutes =
         [(''IPv4/10.0.0.0/24'',
           \<lparr>ri_addressFamily = Some ''IPv4'', ri_address = Some ''10.0.0.0'',
            ri_prefixLength = Some 24, ri_router = Some ''192.168.1.1''\<rparr>)],
       log = []\<rparr>
    = Inr \<lparr>activeStaticRoutes = [],
       inactiveStaticRoutes =
         [(''IPv4/10.0.0.0/24'',
           \<lparr>ri_addressFamily = Some ''IPv4'', ri_address = Some ''10.0.0.0'',
            ri_prefixLength = Some 24, ri_router = Some ''192.168.1.1''\<rparr>)],
       log = [([''/sbin/route'', ''delete'', ''10.0.0.0/24'', ''192.168.1.1''],
               \<lparr>spawn_rc = 2, wait_status = 0\<rparr>)]\<rparr>"
  by (simp add: remove_routes_def remove_route_def do_route_def route_argv_def
      show_int_def show_nat.simps do_route_result_def WIFSIGNALED_def WEXITSTATUS_def
      WSTATUS_def CFDictionaryRemoveValue_def)

section \<open>Change aggregator\<close>





section \<open>Reconciler\<close>

lemma map_of_None_keys: "(map_of d k = None) = (k \<notin> fst ` set d)"
  by (simp add: map_of_eq_None_iff)




















lemmas pass_defs =
  setup_routes_for_service_def prefs_event_def run_pass_def setup_route_def
  route_router_def route_key_def old_router_def add_new_route_def remove_old_route_def
  remove_routes_def resolve_router_def add_route_def remove_route_def do_route_def
  route_argv_def show_int_def show_nat.simps do_route_result_def
  WIFSIGNALED_def WEXITSTATUS_def WSTATUS_def
  CFDictionaryGetValue_def CFDictionaryRemoveValue_def CFDictionaryAddValue_def Let_def

text \<open>
  C1. A successful add is meant to leave the new entry under the route's key. The
  source stores it with \<open>CFDictionaryAddValue\<close>, which does nothing when the key is
  present. Below, the snapshot holds the route with the router 192.168.1.1, the
  gateway is now 192.168.1.254, the \<open>delete\<close> command fails (exit status 1) and the
  \<open>add\<close> command succeeds: the snapshot still names 192.168.1.1.
\<close>

theorem add_after_failed_remove_keeps_old_entry:
  "(case setup_route
        (\<lambda>lg a. if a ! 1 = ''delete'' then \<lparr>spawn_rc = 0, wait_status = 256\<rparr>
                 else \<lparr>spawn_rc = 0, wait_status = 0\<rparr>)
        (Some ''192.168.1.254'') None
        \<lparr>addressFamily = ''IPv4'', address = ''10.0.0.0'', prefixLength = 24\<rparr>
        \<lparr>activeStaticRoutes =
           [(''IPv4/10.0.0.0/24'',
             \<lparr>ri_addressFamily = Some ''IPv4'', ri_address = Some ''10.0.0.0'',
              ri_prefixLength = Some 24, ri_router = Some ''192.168.1.1''\<rparr>)],
         inactiveStaticRoutes =
           [(''IPv4/10.0.0.0/24'',
             \<lparr>ri_addressFamily = Some ''IPv4'', ri_address = Some ''10.0.0.0'',
              ri_prefixLength = Some 24, ri_router = Some ''192.168.1.1''\<rparr>)],
         log = []\<rparr> of
      Inl f \<Rightarrow> False
    | Inr s' \<Rightarrow>
        map (\<lambda>e. (fst e, do_route_result (snd e))) (log s') =
          [([''/sbin/route'', ''delete'', ''10.0.0.0/24'', ''192.168.1.1''], False),
           ([''/sbin/route'', ''add'', ''10.0.0.0/24'', ''192.168.1.254''], True)]
        \<and> CFDictionaryGetValue (activeStaticRoutes s') ''IPv4/10.0.0.0/24'' =
            Some \<lparr>ri_addressFamily = Some ''IPv4'', ri_address = Some ''10.0.0.0'',
               ri_prefixLength = Some 24, ri_router = Some ''192.168.1.1''\<rparr>)"
  by (simp add: pass_defs)

text \<open>
  C3. A service state dictionary that is present and has neither \<open>Router\<close> nor
  \<open>NetworkSignature\<close> is meant to give an absent gateway. The source hands the
  missing signature to \<open>CFStringCreateArrayBySeparatingStrings\<close>: the pass does not
  complete.
\<close>

theorem setup_routes_without_signature_faults:
  "setup_routes_for_service K ''svc''
     \<lparr>staticRoutes =
        Some [(''svc'', [\<lparr>addressFamily = ''IPv4'', address = ''10.0.0.0'', prefixLength = 24\<rparr>])],
      activeStore = (\<lambda>_. None),
      serviceStateIPv4 = (\<lambda>_. Some \<lparr>Router = None, NetworkSignature = None\<rparr>),
      serviceStateIPv6 = (\<lambda>_. None),
      routeLog = [], prefsTrace = []\<rparr> = Inl NullArgument"
  by (simp add: setup_routes_for_service_def prefs_event_def CFDictionaryGetValue_def
      resolve_router_def Let_def)







section \<open>Change aggregator: one pass per service\<close>





section \<open>Destination parser\<close>

lemma byte_masks:
  "(0xff :: 32 word) = mask 8"
  "(0xff00 :: 32 word) = push_bit 8 (mask 8)"
  "(0xff0000 :: 32 word) = push_bit 16 (mask 8)"
  "(0xff000000 :: 32 word) = push_bit 24 (mask 8)"
  by (simp_all add: mask_eq_exp_minus_1 push_bit_eq_mult)

lemma bit_OSSwapInt32:
  "bit (OSSwapInt32 x) i =
     (if i < 8 then bit x (i + 24)
      else if i < 16 then bit x (i + 8)
      else if i < 24 then bit x (i - 8)
      else if i < 32 then bit x (i - 24)
      else False)"
  unfolding OSSwapInt32_def byte_masks
  by (auto simp: bit_simps add.commute dest: bit_imp_le_length)

lemma OSSwapInt32_twice: "OSSwapInt32 (OSSwapInt32 x) = x"
  by (rule bit_word_eqI) (auto simp: bit_OSSwapInt32)

lemma OSSwapInt32_and: "OSSwapInt32 (x AND y) = OSSwapInt32 x AND OSSwapInt32 y"
  by (rule bit_word_eqI) (auto simp: bit_OSSwapInt32 bit_and_iff)

lemma and_mask_eq: "and_mask big_endian w m = w AND m"
  by (simp add: and_mask_def host_word_def memory_word_def OSSwapHostToBigInt32_def
      OSSwapInt32_and OSSwapInt32_twice)

lemma bit_shifted_mask:
  "0 \<le> n \<Longrightarrow> bit (shifted_mask n) i = (nat n \<le> i \<and> i < 32)"
proof -
  have m: "(0xffffffff :: 32 word) = mask 32"
    by (simp add: mask_eq_exp_minus_1)
  show ?thesis
    unfolding shifted_mask_def m by (auto simp: bit_simps)
qed

lemma mask_v4_props:
  "af (mask_v4 be p v) = AF_INET"
  "prefix_len (mask_v4 be p v) = max 0 (min 32 p)"
  "length (ip (mask_v4 be p v)) = 1"
  "bit (ip (mask_v4 be p v) ! 0) i = (bit v i \<and> 32 - prefix_len (mask_v4 be p v) \<le> int i)"
  by (auto simp: mask_v4_def Let_def and_mask_eq bit_and_iff bit_shifted_mask
      dest: bit_imp_le_length)

lemma mask_v6_props:
  "af (mask_v6 be p ws) = AF_INET6"
  "prefix_len (mask_v6 be p ws) = max 0 (min 128 p)"
  "length (ip (mask_v6 be p ws)) = 4"
  by (auto simp: mask_v6_def Let_def)

lemma mask_v6_bits:
  assumes "k < 4" and "i < 32"
  shows "bit (ip (mask_v6 be p ws) ! k) i =
     (bit (ws ! k) i \<and> 128 - prefix_len (mask_v6 be p ws) \<le> int (32 * (3 - k) + i))"
proof -
  from assms(1) consider "k = 0" | "k = 1" | "k = 2" | "k = 3" by linarith
  then show ?thesis
    using assms(2)
    by cases
      (auto simp: mask_v6_def Let_def and_mask_eq bit_and_iff bit_shifted_mask)
qed

text \<open>The zero bytes that fill the gap of an IPv6 address, one at a time.\<close>

lemma zero_fill_step:
  "replicate (numeral n) (0 :: 8 word) = 0 # replicate (numeral n - 1) 0"
proof -
  obtain m where m: "numeral n = Suc m"
    by (metis numeral_eq_Suc)
  show ?thesis unfolding m by simp
qed

lemmas parse_defs = zero_fill_step
  parse_dest_def sscanf_d_def strtoimax_def isspace_def isdigit_def digit_val_def xdigit_val_def
  inet_pton4_def inet_pton6_def mask_v4_def mask_v6_def v6_words_def and_mask_def
  host_word_def memory_word_def OSSwapHostToBigInt32_def OSSwapInt32_def shifted_mask_def
  be32_def Let_def

lemma parse_dest_examples:
  "parse_dest be ''192.168.5.37/24'' = Some \<lparr>af = AF_INET, prefix_len = 24, ip = [0xC0A80500]\<rparr>"
  "parse_dest be ''2001:db8::1/32'' =
     Some \<lparr>af = AF_INET6, prefix_len = 32, ip = [0x20010DB8, 0, 0, 0]\<rparr>"
  "parse_dest be ''10.0.0.1'' = Some \<lparr>af = AF_INET, prefix_len = 32, ip = [0x0A000001]\<rparr>"
  "parse_dest be ''10.0.0.1/'' = Some \<lparr>af = AF_INET, prefix_len = 32, ip = [0x0A000001]\<rparr>"
  "parse_dest be ''10.0.0.1/abc'' = Some \<lparr>af = AF_INET, prefix_len = 32, ip = [0x0A000001]\<rparr>"
  by (cases be; simp add: parse_defs)+

lemma takeWhile_no_separator: "c \<notin> set xs \<Longrightarrow> takeWhile (\<lambda>x. x \<noteq> c) xs = xs"
  by (induction xs) auto

lemma takeWhile_at_separator:
  "c \<notin> set xs \<Longrightarrow> takeWhile (\<lambda>x. x \<noteq> c) (xs @ c # ys) = xs"
  by (induction xs) auto

lemma dropWhile_at_separator:
  "c \<notin> set xs \<Longrightarrow> dropWhile (\<lambda>x. x \<noteq> c) (xs @ c # ys) = c # ys"
  by (induction xs) auto

lemma parse_dest_cases:
  assumes "parse_dest be str = Some d"
  shows "(\<exists>v4. inet_pton4 (takeWhile (\<lambda>c. c \<noteq> CHR ''/'') str) = Some v4
            \<and> af d = AF_INET
            \<and> prefix_len d =
                (case (if CHR ''/'' \<in> set str
                       then sscanf_d (tl (dropWhile (\<lambda>c. c \<noteq> CHR ''/'') str)) else None) of
                   None \<Rightarrow> 32
                 | Some n \<Rightarrow> max 0 (min 32 n))
            \<and> 0 \<le> prefix_len d \<and> prefix_len d \<le> 32
            \<and> length (ip d) = 1
            \<and> (\<forall>i. bit (ip d ! 0) i = (bit (be32 v4) i \<and> 32 - prefix_len d \<le> int i))
            \<and> (CHR ''/'' \<notin> set str \<longrightarrow> prefix_len d = 32))
       \<or> (\<exists>v6. inet_pton4 (takeWhile (\<lambda>c. c \<noteq> CHR ''/'') str) = None
            \<and> inet_pton6 (takeWhile (\<lambda>c. c \<noteq> CHR ''/'') str) = Some v6
            \<and> af d = AF_INET6
            \<and> prefix_len d =
                (case (if CHR ''/'' \<in> set str
                       then sscanf_d (tl (dropWhile (\<lambda>c. c \<noteq> CHR ''/'') str)) else None) of
                   None \<Rightarrow> 128
                 | Some n \<Rightarrow> max 0 (min 128 n))
            \<and> 0 \<le> prefix_len d \<and> prefix_len d \<le> 128
            \<and> length (ip d) = 4
            \<and> (\<forall>k<4. \<forall>i<32. bit (ip d ! k) i =
                  (bit (v6_words v6 ! k) i \<and> 128 - prefix_len d \<le> int (32 * (3 - k) + i)))
            \<and> (CHR ''/'' \<notin> set str \<longrightarrow> prefix_len d = 128))"
proof -
  let ?a = "takeWhile (\<lambda>c. c \<noteq> CHR ''/'') str"
  let ?scanned = "if CHR ''/'' \<in> set str
                  then sscanf_d (tl (dropWhile (\<lambda>c. c \<noteq> CHR ''/'') str)) else None"
  have a: "(if CHR ''/'' \<in> set str then ?a else str) = ?a"
    by (simp add: takeWhile_no_separator)
  have pd: "parse_dest be str =
      (case inet_pton4 ?a of
         Some v4 \<Rightarrow> Some (mask_v4 be (case ?scanned of None \<Rightarrow> 32 | Some n \<Rightarrow> n) (be32 v4))
       | None \<Rightarrow>
           (case inet_pton6 ?a of
              Some v6 \<Rightarrow> Some (mask_v6 be (case ?scanned of None \<Rightarrow> 128 | Some n \<Rightarrow> n)
                                 (v6_words v6))
            | None \<Rightarrow> None))"
    unfolding parse_dest_def Let_def a ..
  show ?thesis
  proof (cases "inet_pton4 ?a")
    case (Some v4)
    then have d: "d = mask_v4 be (case ?scanned of None \<Rightarrow> 32 | Some n \<Rightarrow> n) (be32 v4)"
      using assms pd by simp
    have p: "prefix_len d = (case ?scanned of None \<Rightarrow> 32 | Some n \<Rightarrow> max 0 (min 32 n))"
      unfolding d by (simp add: mask_v4_props split: option.splits)
    have "CHR ''/'' \<notin> set str \<longrightarrow> prefix_len d = 32"
      unfolding d by (simp add: mask_v4_props)
    then show ?thesis
      using Some p unfolding d by (auto simp: mask_v4_props)
  next
    case None
    then obtain v6 where v6: "inet_pton6 ?a = Some v6"
      and d: "d = mask_v6 be (case ?scanned of None \<Rightarrow> 128 | Some n \<Rightarrow> n) (v6_words v6)"
      using assms pd by (cases "inet_pton6 ?a") simp_all
    have p: "prefix_len d = (case ?scanned of None \<Rightarrow> 128 | Some n \<Rightarrow> max 0 (min 128 n))"
      unfolding d by (simp add: mask_v6_props split: option.splits)
    have "CHR ''/'' \<notin> set str \<longrightarrow> prefix_len d = 128"
      unfolding d by (simp add: mask_v6_props)
    then show ?thesis
      using None v6 p unfolding d by (auto simp: mask_v6_props mask_v6_bits)
  qed
qed

lemma parse_dest_bad_prefix:
  assumes "sscanf_d suffix = None" and "CHR ''/'' \<notin> set addr"
  shows "parse_dest be (addr @ ''/'' @ suffix) = parse_dest be addr"
proof -
  have "takeWhile (\<lambda>c. c \<noteq> CHR ''/'') (addr @ CHR ''/'' # suffix) = addr"
    using assms(2) by (rule takeWhile_at_separator)
  moreover have "dropWhile (\<lambda>c. c \<noteq> CHR ''/'') (addr @ CHR ''/'' # suffix) = CHR ''/'' # suffix"
    using assms(2) by (rule dropWhile_at_separator)
  ultimately show ?thesis
    using assms by (simp add: parse_dest_def Let_def split: option.splits)
qed

text \<open>
  What \<open>sscanf\<close> stores for a number written with up to nine digits, with or without a
  minus sign: the number itself.
\<close>

lemma digit_val_le: "isdigit c \<Longrightarrow> digit_val c \<le> 9"
  by (auto simp: isdigit_def digit_val_def)

lemma decimal_bound:
  "\<forall>c\<in>set ds. isdigit c \<Longrightarrow> decimal acc ds < (acc + 1) * 10 ^ length ds"
proof (induction ds arbitrary: acc)
  case Nil
  then show ?case by simp
next
  case (Cons c cs)
  have "decimal (10 * acc + digit_val c) cs < (10 * acc + digit_val c + 1) * 10 ^ length cs"
    using Cons by simp
  also have "\<dots> \<le> (10 * acc + 10) * 10 ^ length cs"
    using digit_val_le [of c] Cons.prems by (intro mult_right_mono) simp_all
  finally show ?case by (simp add: algebra_simps)
qed

lemma isdigit_not_sign: "isdigit c \<Longrightarrow> \<not> isspace c \<and> c \<noteq> CHR ''-'' \<and> c \<noteq> CHR ''+''"
  by (auto simp: isdigit_def isspace_def)

lemma sint_word32:
  "- 2147483648 \<le> x \<Longrightarrow> x < 2147483648 \<Longrightarrow> sint (word_of_int x :: 32 word) = x"
  by (simp add: sint_sbintrunc' signed_take_bit_int_eq_self)

lemma sscanf_d_decimal:
  assumes ds: "ds \<noteq> []" "length ds \<le> 9" "\<forall>c\<in>set ds. isdigit c"
  shows "sscanf_d ds = Some (int (decimal 0 ds))"
    and "sscanf_d (CHR ''-'' # ds) = Some (- int (decimal 0 ds))"
proof -
  obtain c cs where c: "ds = c # cs" using ds(1) by (cases ds) auto
  have b: "decimal 0 ds < 10 ^ 9"
  proof -
    have "decimal 0 ds < 10 ^ length ds" using decimal_bound [OF ds(3), of 0] by simp
    also have "\<dots> \<le> (10::nat) ^ 9" using ds(2) by (intro power_increasing) simp_all
    finally show ?thesis .
  qed
  then have bi: "int (decimal 0 ds) < 1000000000" by simp
  have tw: "takeWhile isdigit ds = ds" using ds(3) by (simp add: takeWhile_eq_all_conv)
  have tk: "take 512 ds = ds" "take 511 ds = ds" using ds(2) by simp_all
  have st1: "strtoimax False ds = int (decimal 0 ds)"
    using bi by (simp add: strtoimax_def)
  have st2: "strtoimax True ds = - int (decimal 0 ds)"
    using bi by (simp add: strtoimax_def)
  have nsp: "\<not> isspace c" "c \<noteq> CHR ''-''" "c \<noteq> CHR ''+''"
    using isdigit_not_sign [of c] ds(3) c by simp_all
  have dw: "dropWhile isspace ds = ds" using nsp c by simp
  have hd: "hd ds = c" using c by simp
  show "sscanf_d ds = Some (int (decimal 0 ds))"
    using sint_word32 [of "int (decimal 0 ds)"] bi ds(1) nsp
    by (simp add: sscanf_d_def Let_def dw hd tk tw st1)
  have dw2: "\<not> isspace CHR ''-''"
    by (simp add: isspace_def)
  show "sscanf_d (CHR ''-'' # ds) = Some (- int (decimal 0 ds))"
    using sint_word32 [of "- int (decimal 0 ds)"] bi ds(1)
    by (simp add: sscanf_d_def Let_def dw2 tk tw st2)
qed



text \<open>
  C10. When the text after the first slash does not start with an integer, the parser
  does what it does on the address alone: it fails only if the address is neither an
  IPv4 nor an IPv6 address, and the prefix length is the full width of the family.
\<close>

theorem parse_dest_unparsable_prefix:
  "(sscanf_d suffix = None \<and> CHR ''/'' \<notin> set addr \<longrightarrow>
      parse_dest be (addr @ ''/'' @ suffix) = parse_dest be addr
      \<and> (parse_dest be (addr @ ''/'' @ suffix) = None) = (inet_pton4 addr = None \<and> inet_pton6 addr = None)
      \<and> (\<forall>d. parse_dest be (addr @ ''/'' @ suffix) = Some d \<longrightarrow>
            prefix_len d = (if af d = AF_INET then 32 else 128)))
   \<and> sscanf_d '''' = None \<and> sscanf_d ''abc'' = None
   \<and> parse_dest be ''10.0.0.1/'' =
       Some \<lparr>af = AF_INET, prefix_len = 32, ip = [0x0A000001]\<rparr>
   \<and> parse_dest be ''10.0.0.1/abc'' =
       Some \<lparr>af = AF_INET, prefix_len = 32, ip = [0x0A000001]\<rparr>"
proof -
  have gen: "parse_dest be (addr @ ''/'' @ suffix) = parse_dest be addr
      \<and> (parse_dest be (addr @ ''/'' @ suffix) = None) = (inet_pton4 addr = None \<and> inet_pton6 addr = None)
      \<and> (\<forall>d. parse_dest be (addr @ ''/'' @ suffix) = Some d \<longrightarrow>
            prefix_len d = (if af d = AF_INET then 32 else 128))"
    if s: "sscanf_d suffix = None" and a: "CHR ''/'' \<notin> set addr"
  proof -
    have eq: "parse_dest be (addr @ ''/'' @ suffix) = parse_dest be addr"
      by (rule parse_dest_bad_prefix [OF s a])
    have none: "(parse_dest be addr = None) = (inet_pton4 addr = None \<and> inet_pton6 addr = None)"
      using a by (simp add: parse_dest_def Let_def split: option.splits)
    have width: "prefix_len d = (if af d = AF_INET then 32 else 128)"
      if "parse_dest be addr = Some d" for d
      using parse_dest_cases [OF that] a by (auto simp: AF_INET_def AF_INET6_def)
    show ?thesis unfolding eq using none width by blast
  qed
  have scan: "sscanf_d '''' = None" "sscanf_d ''abc'' = None"
    by (simp_all add: sscanf_d_def isspace_def isdigit_def)
  show ?thesis using gen scan parse_dest_examples(4,5) [of be] by blast
qed

theorem parse_dest_unparsable_prefix_witness:
  "sscanf_d ''x8'' = None \<and> CHR ''/'' \<notin> set ''2001:db8::''
   \<and> parse_dest False ''2001:db8::/x8'' = parse_dest False ''2001:db8::''
   \<and> parse_dest False ''2001:db8::/x8'' =
       Some \<lparr>af = AF_INET6, prefix_len = 128, ip = [0x20010DB8, 0, 0, 0]\<rparr>"
proof -
  have s: "sscanf_d ''x8'' = None"
    by (simp add: sscanf_d_def isspace_def isdigit_def)
  have a: "CHR ''/'' \<notin> set ''2001:db8::''" by simp
  have "parse_dest False (''2001:db8::'' @ ''/'' @ ''x8'') = parse_dest False ''2001:db8::''"
    using parse_dest_unparsable_prefix [of "''x8''" "''2001:db8::''" False] s a by blast
  moreover have "parse_dest False ''2001:db8::'' =
      Some \<lparr>af = AF_INET6, prefix_len = 128, ip = [0x20010DB8, 0, 0, 0]\<rparr>"
    by (simp add: parse_defs)
  ultimately show ?thesis using s a by simp
qed

section \<open>Locking of the preferences\<close>

lemmas cli_defs =
  list_routes_def service_by_name_def sc_get_value_at_path_def SCPreferencesGetValue_def
  dictionary_value_def string_value_def array_value_def and_then_def untraced_def call_def
  result_def same_name_def to_lower_def kRoutesKey_def Let_def

text \<open>
  C8. Every read of the preferences is meant to happen while the lock is held.
  \<open>list_routes\<close> (like \<open>add_route\<close> and \<open>delete_route\<close> of the tool) calls
  \<open>service_by_name\<close> before it takes the lock, and \<open>service_by_name\<close> reads the
  preferences: for \<open>staticroute list ethernet\<close> on preferences with one service of that
  name, three reads come before the lock is taken.
\<close>

theorem list_routes_reads_before_lock:
  "list_routes
     [(''CurrentSet'', PString ''/Sets/0''),
      (''Sets'', PDict [(''0'', PDict [(''Network'', PDict
         [(''Global'', PDict [(''IPv4'', PDict [(''ServiceOrder'', PArray [PString ''S1''])])]),
          (''Service'', PDict [(''S1'', PDict [(''__LINK__'', PString ''/NetworkServices/S1'')])])])])]),
      (''NetworkServices'', PDict [(''S1'', PDict [(''UserDefinedName'', PString ''Ethernet'')])])]
     ''ethernet''
   = (Inr 0,
      [PrefsGetValue ''CurrentSet'', PrefsGetValue ''Sets'', PrefsGetValue ''NetworkServices'',
       PrefsLock, PrefsGetValue kRoutesKey, PrefsUnlock])
   \<and> \<not> locked_access False
       [PrefsGetValue ''CurrentSet'', PrefsGetValue ''Sets'', PrefsGetValue ''NetworkServices'',
        PrefsLock, PrefsGetValue kRoutesKey, PrefsUnlock]"
  by (simp add: cli_defs)

end
